theory Spec2Isabelle
  imports Main "HOL-Library.AList"
begin

section \<open>The scopes API of the OPAL server\<close>

text \<open>
  A shallow embedding of \<^verbatim>\<open>opal_server/scopes/api.py\<close>: the router built by
  \<^verbatim>\<open>setup_scopes_api\<close>, its bearer-token dependency and its six handlers. Exceptions
  are values of a sum type, the scope registry and the sequence of operations performed on
  the collaborators are an explicit state, and the collaborators whose code is in other
  modules (pullers, publisher, signature validation, git) are fields of an environment.
\<close>

subsection \<open>Data model\<close>

text \<open>
  The fields of \<^verbatim>\<open>Scope\<close> that the handlers read: \<^verbatim>\<open>scope.scope_id\<close>,
  \<^verbatim>\<open>scope.policy\<close> with \<^verbatim>\<open>url\<close>, \<^verbatim>\<open>polling\<close>, \<^verbatim>\<open>directories\<close>,
  \<^verbatim>\<open>extensions\<close> and \<^verbatim>\<open>manifest\<close>, and \<^verbatim>\<open>scope.data\<close>. The source type is
  the type string that the puller dispatch looks up.
\<close>

record policy_source =
  source_type :: string
  url :: string
  polling :: bool
  directories :: "string list"
  extensions :: "string list"
  manifest :: string

record scope =
  scope_id :: string
  policy :: policy_source
  data :: string

text \<open>The repository part of a \<^verbatim>\<open>PushWebHook\<close> payload and the payload itself.\<close>

record push_repository =
  clone_url :: string
  git_url :: string
  ssh_url :: string

record push_webhook =
  repository :: push_repository
  before :: string
  after :: string

type_synonym commit = string

text \<open>
  Exceptions raised by Python or by a collaborator, and what leaves a handler: an
  \<^verbatim>\<open>HTTPException\<close> with its status code and optional detail, or any other exception,
  which the handler does not catch.
\<close>

datatype exn =
    ScopeNotFound string
  | InvalidScopeSourceType string
  | AttributeError string
  | ValueError string
  | NoSuchPathError string
  | DiffBaseUnresolvable string
  | AssertionError string
  | FastAPIError string
  | CollaboratorFailure string

datatype error =
    HTTPException nat "string option"
  | Uncaught exn

text \<open>A puller is created from the base directory and the scope.\<close>

datatype puller = Puller string scope

text \<open>
  The operations a request performs on its collaborators, in the order they are invoked.
  A publish is recorded with the topic prefix of its publisher and the two commits.
\<close>

datatype call =
    Clone string
  | Check puller
  | Diff puller
  | Pull puller
  | Publish string commit commit

subsection \<open>Git repositories and policy bundles\<close>

type_synonym path = "string list"

record commit_object =
  parents :: "string list"
  tree :: "(path \<times> string) list"

record repo =
  objects :: "(string \<times> commit_object) list"
  head_commit :: string

record bundle_file =
  file_path :: path
  file_content :: "string option"
  is_deleted :: bool

record policy_bundle =
  bundle_hash :: string
  old_hash :: "string option"
  files :: "bundle_file list"
  manifest_content :: "string option"

subsection \<open>Environment and state\<close>

text \<open>
  The configuration (\<^verbatim>\<open>opal_server_config\<close>) and the collaborators. The outcome of an
  operation of a collaborator may depend on everything that was performed before it, so
  each one takes the sequence of earlier calls.
\<close>

record env =
  SCOPE_API_KEY :: string
  BASE_DIR :: string
  puller_types :: "string list"
  signature_valid :: "string \<Rightarrow> string option \<Rightarrow> bool"
  puller_check :: "puller \<Rightarrow> call list \<Rightarrow> exn + bool"
  puller_diff :: "puller \<Rightarrow> call list \<Rightarrow> exn + commit \<times> commit"
  puller_pull :: "puller \<Rightarrow> call list \<Rightarrow> exn + unit"
  publish_changed_directories :: "commit \<Rightarrow> commit \<Rightarrow> string \<Rightarrow> call list \<Rightarrow> exn + unit"
  git_Repo :: "string \<Rightarrow> call list \<Rightarrow> exn + repo"
  stable_hash :: "string \<Rightarrow> path list \<Rightarrow> string list \<Rightarrow> string \<Rightarrow> string"

record state =
  registry :: "(string \<times> scope) list"
  calls :: "call list"

definition invoke :: "call \<Rightarrow> (call list \<Rightarrow> exn + 'a) \<Rightarrow> state \<Rightarrow> (exn + 'a) \<times> state" where
  "invoke c f st = (f (calls st), st\<lparr>calls := calls st @ [c]\<rparr>)"

subsection \<open>Paths\<close>

text \<open>
  \<^verbatim>\<open>os.path.join\<close> of two components on POSIX; a join of three components is the
  join of the first two with the third. The base directory of the scopes is
  \<^verbatim>\<open>BASE_DIR / "scopes"\<close>, which is the same join for a base directory in normal form.
\<close>

definition os_path_join :: "string \<Rightarrow> string \<Rightarrow> string" where
  "os_path_join a b =
     (if b \<noteq> [] \<and> hd b = CHR ''/'' then b
      else if a = [] \<or> last a = CHR ''/'' then a @ b
      else a @ ''/'' @ b)"

definition get_base_dir :: "env \<Rightarrow> string" where
  "get_base_dir env = os_path_join (BASE_DIR env) ''scopes''"

subsection \<open>The bearer-token dependency\<close>

text \<open>
  \<^verbatim>\<open>get_authorization_scheme_param\<close> of FastAPI partitions the header value at its
  first space. \<^verbatim>\<open>str.lower\<close> is modelled on the ASCII letters, the only characters whose
  lower case can be a letter of \<^verbatim>\<open>"bearer"\<close> in a header value.
\<close>

definition get_authorization_scheme_param :: "string \<Rightarrow> string \<times> string" where
  "get_authorization_scheme_param v =
     (if v = [] then ([], [])
      else (takeWhile (\<lambda>c. c \<noteq> CHR '' '') v, drop 1 (dropWhile (\<lambda>c. c \<noteq> CHR '' '') v)))"

definition lower_char :: "char \<Rightarrow> char" where
  "lower_char c =
     (case map_of (zip ''ABCDEFGHIJKLMNOPQRSTUVWXYZ'' ''abcdefghijklmnopqrstuvwxyz'') c of
        None \<Rightarrow> c
      | Some l \<Rightarrow> l)"

definition lower :: "string \<Rightarrow> string" where
  "lower s = map lower_char s"

definition check_scope_api_key :: "env \<Rightarrow> string option \<Rightarrow> error + unit" where
  "check_scope_api_key env authorization =
     (case authorization of
        None \<Rightarrow> Inl (HTTPException 401 None)
      | Some a \<Rightarrow>
          if a = [] then Inl (HTTPException 401 None)
          else
            (case get_authorization_scheme_param a of
               (scheme, param) \<Rightarrow>
                 if lower scheme \<noteq> ''bearer'' \<or> param \<noteq> SCOPE_API_KEY env
                 then Inl (HTTPException 401 None)
                 else Inr ()))"

subsection \<open>Commits from hexadecimal identifiers\<close>

text \<open>
  \<^verbatim>\<open>bytes.fromhex\<close> reads two hexadecimal digits per byte and skips ASCII whitespace
  before a byte and at the end; anything else raises \<^verbatim>\<open>ValueError\<close>. A byte is
  represented by its two digits in lower case. \<^verbatim>\<open>git.Commit(repository, binsha)\<close>
  asserts that the binary identifier has 20 bytes; the commit is identified by its
  hexadecimal identifier.
\<close>

definition is_space :: "char \<Rightarrow> bool" where
  "is_space c = (c \<in> set [CHR '' '', CHR 0x09, CHR 0x0A, CHR 0x0B, CHR 0x0C, CHR 0x0D])"

definition is_hex_digit :: "char \<Rightarrow> bool" where
  "is_hex_digit c = (c \<in> set ''0123456789abcdefABCDEF'')"

fun bytes_fromhex :: "string \<Rightarrow> exn + string list" where
  "bytes_fromhex [] = Inr []"
| "bytes_fromhex [c] =
     (if is_space c then Inr []
      else Inl (ValueError ''non-hexadecimal number found in fromhex() arg''))"
| "bytes_fromhex (c # d # ds) =
     (if is_space c then bytes_fromhex (d # ds)
      else if is_hex_digit c \<and> is_hex_digit d then
        (case bytes_fromhex ds of
           Inl e \<Rightarrow> Inl e
         | Inr bs \<Rightarrow> Inr ([lower_char c, lower_char d] # bs))
      else Inl (ValueError ''non-hexadecimal number found in fromhex() arg''))"

definition git_Commit :: "string list \<Rightarrow> exn + commit" where
  "git_Commit binsha =
     (if length binsha \<noteq> 20 then Inl (AssertionError ''Require 20 byte binary sha'')
      else Inr (concat binsha))"

subsection \<open>Pullers and the scope store\<close>

text \<open>
  Modelled from the spec: \<^verbatim>\<open>create_puller\<close> of \<^verbatim>\<open>opal_server.scopes.pullers\<close>, whose
  code is in another module. The spec describes a type-string lookup over the known puller
  variants that fails with the invalid source type when the type is not recognised.
\<close>

definition create_puller :: "env \<Rightarrow> string \<Rightarrow> scope \<Rightarrow> exn + puller" where
  "create_puller env base_dir s =
     (if source_type (policy s) \<in> set (puller_types env) then Inr (Puller base_dir s)
      else Inl (InvalidScopeSourceType (source_type (policy s))))"

text \<open>
  What \<^verbatim>\<open>all_scopes\<close> yields, as Python sees it: a pair of a scope id and a scope, or a
  scope object. Unpacking into two targets succeeds on a pair; a scope object iterates over
  its fields, one (name, value) pair for each of \<^verbatim>\<open>scope_id\<close>, \<^verbatim>\<open>policy\<close> and
  \<^verbatim>\<open>data\<close>, so the unpacking raises. Reading the attribute \<^verbatim>\<open>policy\<close> or
  \<^verbatim>\<open>scope_id\<close> succeeds on a scope object and raises on a pair:
  \<open>getattr_scope\<close> gives the scope object on which the named attribute is read.
\<close>

datatype element = Id_scope_pair string scope | Scope_object scope

definition unpack_pair :: "element \<Rightarrow> exn + string \<times> scope" where
  "unpack_pair x =
     (case x of
        Id_scope_pair sid s \<Rightarrow> Inr (sid, s)
      | Scope_object s \<Rightarrow> Inl (ValueError ''too many values to unpack (expected 2)''))"

definition getattr_scope :: "element \<Rightarrow> string \<Rightarrow> exn + scope" where
  "getattr_scope x name =
     (case x of
        Id_scope_pair sid s \<Rightarrow> Inl (AttributeError name)
      | Scope_object s \<Rightarrow> Inr s)"

text \<open>
  Modelled from the spec: the class \<^verbatim>\<open>ScopeStore\<close> of
  \<^verbatim>\<open>opal_server.scopes.scope_store\<close>, whose code is in another module.
  \<^verbatim>\<open>get_scope\<close> returns the scope or fails with \<^verbatim>\<open>ScopeNotFound\<close>;
  \<^verbatim>\<open>add_scope\<close> validates the source type against the known puller variants, fails with
  the invalid source type if it is not recognised, and otherwise clones the upstream and
  persists the scope; \<^verbatim>\<open>all_scopes\<close> produces the sequence of (scope_id, scope) pairs in
  insertion order; \<^verbatim>\<open>pull_scope\<close> delegates to the puller of the scope.
\<close>

definition ScopeStore_get_scope :: "state \<Rightarrow> string \<Rightarrow> exn + scope" where
  "ScopeStore_get_scope st sid =
     (case map_of (registry st) sid of
        None \<Rightarrow> Inl (ScopeNotFound sid)
      | Some s \<Rightarrow> Inr s)"

definition ScopeStore_add_scope :: "env \<Rightarrow> scope \<Rightarrow> state \<Rightarrow> (exn + unit) \<times> state" where
  "ScopeStore_add_scope env s st =
     (case create_puller env (get_base_dir env) s of
        Inl e \<Rightarrow> (Inl e, st)
      | Inr p \<Rightarrow>
          (Inr (), st\<lparr>registry := AList.update (scope_id s) s (registry st),
                      calls := calls st @ [Clone (scope_id s)]\<rparr>))"

definition ScopeStore_all_scopes :: "state \<Rightarrow> element list" where
  "ScopeStore_all_scopes st = map (\<lambda>(sid, s). Id_scope_pair sid s) (registry st)"

definition ScopeStore_pull_scope :: "env \<Rightarrow> string \<Rightarrow> state \<Rightarrow> (exn + unit) \<times> state" where
  "ScopeStore_pull_scope env sid st =
     (case ScopeStore_get_scope st sid of
        Inl e \<Rightarrow> (Inl e, st)
      | Inr s \<Rightarrow>
          (case create_puller env (get_base_dir env) s of
             Inl e \<Rightarrow> (Inl e, st)
           | Inr p \<Rightarrow> invoke (Pull p) (puller_pull env p) st))"

text \<open>
  Modelled from the spec: \<^verbatim>\<open>validate_github_signature_or_throw\<close> of
  \<^verbatim>\<open>opal_server.policy.webhook.deps\<close>, whose code is in another module. The signature
  header is checked against the raw request body with the shared secret, and a failure is
  surfaced as unauthorized; the keyed hash itself is the parameter \<open>signature_valid\<close>.
\<close>

definition validate_github_signature_or_throw :: "env \<Rightarrow> string \<Rightarrow> string option \<Rightarrow> error + unit" where
  "validate_github_signature_or_throw env raw_body signature =
     (if signature_valid env raw_body signature then Inr ()
      else Inl (HTTPException 401 None))"

subsection \<open>The bundle maker\<close>

text \<open>
  Modelled from the spec: \<^verbatim>\<open>BundleMaker\<close> of \<^verbatim>\<open>opal_common.git.bundle_maker\<close> and
  \<^verbatim>\<open>make_bundle\<close> of \<^verbatim>\<open>opal_server.policy.bundles.api\<close>, whose code is in other
  modules. The target commit is the current head. If the base hash is absent or unknown to
  the repository, the bundle is full: every file under the selected directories whose
  extension is selected, and the manifest content if present. If the base hash resolves,
  the bundle is the tree diff between the base and the target restricted to the selection,
  with the deleted entries flagged and without content; a base that is not an ancestor of
  the target makes the maker fail.
\<close>

fun split_on :: "char \<Rightarrow> string \<Rightarrow> string list" where
  "split_on sep [] = [[]]"
| "split_on sep (c # cs) =
     (if c = sep then [] # split_on sep cs
      else (case split_on sep cs of [] \<Rightarrow> [[c]] | w # ws \<Rightarrow> (c # w) # ws))"

definition path_of :: "string \<Rightarrow> path" where
  "path_of s = filter (\<lambda>seg. seg \<noteq> [] \<and> seg \<noteq> ''.'') (split_on (CHR ''/'') s)"

definition is_under :: "path \<Rightarrow> path \<Rightarrow> bool" where
  "is_under dir p = (take (length dir) p = dir)"

definition file_extension :: "string \<Rightarrow> string" where
  "file_extension name =
     (if CHR ''.'' \<in> set name then CHR ''.'' # rev (takeWhile (\<lambda>c. c \<noteq> CHR ''.'') (rev name))
      else [])"

definition in_selection :: "path list \<Rightarrow> string list \<Rightarrow> path \<Rightarrow> bool" where
  "in_selection dirs exts p =
     (p \<noteq> [] \<and> list_ex (\<lambda>d. is_under d p) dirs \<and> file_extension (last p) \<in> set exts)"

record bundle_maker =
  maker_repo :: repo
  maker_directories :: "path list"
  maker_extensions :: "string list"
  manifest_filename :: string

definition BundleMaker :: "repo \<Rightarrow> path list \<Rightarrow> string list \<Rightarrow> string \<Rightarrow> bundle_maker" where
  "BundleMaker r dirs exts mf =
     \<lparr>maker_repo = r, maker_directories = dirs, maker_extensions = exts, manifest_filename = mf\<rparr>"

fun reachable :: "(string \<times> commit_object) list \<Rightarrow> nat \<Rightarrow> string \<Rightarrow> string \<Rightarrow> bool" where
  "reachable objs 0 a b = (a = b)"
| "reachable objs (Suc n) a b =
     (a = b \<or>
      (case map_of objs b of
         None \<Rightarrow> False
       | Some c \<Rightarrow> list_ex (\<lambda>p. reachable objs n a p) (parents c)))"

definition is_ancestor :: "repo \<Rightarrow> string \<Rightarrow> string \<Rightarrow> bool" where
  "is_ancestor r a b = reachable (objects r) (length (objects r)) a b"

definition selected :: "bundle_maker \<Rightarrow> path \<Rightarrow> bool" where
  "selected maker p = in_selection (maker_directories maker) (maker_extensions maker) p"

text \<open>
  A tree is read as the map from paths to contents. The entry of a path carries the
  content the tree has there, or the deleted flag and no content when the tree has none.
\<close>

definition entry_at :: "(path \<times> string) list \<Rightarrow> path \<Rightarrow> bundle_file" where
  "entry_at t p =
     (case map_of t p of
        None \<Rightarrow> \<lparr>file_path = p, file_content = None, is_deleted = True\<rparr>
      | Some c \<Rightarrow> \<lparr>file_path = p, file_content = Some c, is_deleted = False\<rparr>)"

definition full_files :: "bundle_maker \<Rightarrow> commit_object \<Rightarrow> bundle_file list" where
  "full_files maker target =
     map (entry_at (tree target))
       (filter (selected maker) (remdups (map fst (tree target))))"

definition diff_files :: "bundle_maker \<Rightarrow> commit_object \<Rightarrow> commit_object \<Rightarrow> bundle_file list" where
  "diff_files maker base target =
     map (entry_at (tree target))
       (filter (\<lambda>p. selected maker p \<and> map_of (tree base) p \<noteq> map_of (tree target) p)
          (remdups (map fst (tree target) @ map fst (tree base))))"

definition resolve_base :: "repo \<Rightarrow> string option \<Rightarrow> (string \<times> commit_object) option" where
  "resolve_base r base_hash =
     (case base_hash of
        None \<Rightarrow> None
      | Some h \<Rightarrow> (case map_of (objects r) h of None \<Rightarrow> None | Some c \<Rightarrow> Some (h, c)))"

definition make_bundle :: "env \<Rightarrow> bundle_maker \<Rightarrow> repo \<Rightarrow> string option \<Rightarrow> exn + policy_bundle" where
  "make_bundle env maker r base_hash =
     (case map_of (objects r) (head_commit r) of
        None \<Rightarrow> Inl (ValueError (head_commit r))
      | Some target \<Rightarrow>
          (case resolve_base r base_hash of
             None \<Rightarrow>
               Inr \<lparr>bundle_hash = stable_hash env (head_commit r) (maker_directories maker)
                                     (maker_extensions maker) (manifest_filename maker),
                    old_hash = None,
                    files = full_files maker target,
                    manifest_content = map_of (tree target) (path_of (manifest_filename maker))\<rparr>
           | Some (h, base) \<Rightarrow>
               if \<not> is_ancestor r h (head_commit r) then Inl (DiffBaseUnresolvable h)
               else
                 Inr \<lparr>bundle_hash = stable_hash env (head_commit r) (maker_directories maker)
                                       (maker_extensions maker) (manifest_filename maker),
                      old_hash = Some h,
                      files = diff_files maker base target,
                      manifest_content = map_of (tree target) (path_of (manifest_filename maker))\<rparr>))"

subsection \<open>The handlers\<close>

definition uncaught :: "exn + 'a \<Rightarrow> error + 'a" where
  "uncaught r = (case r of Inl e \<Rightarrow> Inl (Uncaught e) | Inr v \<Rightarrow> Inr v)"

definition get_scope :: "state \<Rightarrow> string \<Rightarrow> error + scope" where
  "get_scope st sid =
     (case ScopeStore_get_scope st sid of
        Inr s \<Rightarrow> Inr s
      | Inl (ScopeNotFound i) \<Rightarrow> Inl (HTTPException 404 None)
      | Inl e \<Rightarrow> Inl (Uncaught e))"

definition add_scope :: "env \<Rightarrow> scope \<Rightarrow> state \<Rightarrow> (error + unit) \<times> state" where
  "add_scope env s st =
     (case ScopeStore_add_scope env s st of
        (Inr u, st') \<Rightarrow> (Inr (), st')
      | (Inl (InvalidScopeSourceType invalid_type), st') \<Rightarrow>
          (Inl (HTTPException 400 (Some (''Invalid scope source type: '' @ invalid_type))), st')
      | (Inl e, st') \<Rightarrow> (Inl (Uncaught e), st'))"

definition get_scope_policy :: "env \<Rightarrow> string \<Rightarrow> string option \<Rightarrow> state \<Rightarrow> error + policy_bundle" where
  "get_scope_policy env sid base_hash st =
     (case ScopeStore_get_scope st sid of
        Inl e \<Rightarrow> Inl (Uncaught e)
      | Inr s \<Rightarrow>
          (case git_Repo env (os_path_join (get_base_dir env) (scope_id s)) (calls st) of
             Inl e \<Rightarrow> Inl (Uncaught e)
           | Inr r \<Rightarrow>
               uncaught
                 (make_bundle env
                    (BundleMaker r (map path_of (directories (policy s))) (extensions (policy s))
                       (manifest (policy s)))
                    r base_hash)))"

definition get_scope_data_config :: "state \<Rightarrow> string \<Rightarrow> error + string" where
  "get_scope_data_config st sid =
     (case ScopeStore_get_scope st sid of
        Inl e \<Rightarrow> Inl (Uncaught e)
      | Inr s \<Rightarrow> Inr (data s))"

text \<open>The body of the loop of \<^verbatim>\<open>periodic_check\<close> for one element, and the loop.\<close>

definition periodic_check_scope :: "env \<Rightarrow> element \<Rightarrow> state \<Rightarrow> (exn + unit) \<times> state" where
  "periodic_check_scope env x st =
     (case unpack_pair x of
        Inl e \<Rightarrow> (Inl e, st)
      | Inr (sid, s) \<Rightarrow>
          if \<not> polling (policy s) then (Inr (), st)
          else
            (case create_puller env (get_base_dir env) s of
               Inl e \<Rightarrow> (Inl e, st)
             | Inr p \<Rightarrow>
                 (case invoke (Check p) (puller_check env p) st of
                    (Inl e, st1) \<Rightarrow> (Inl e, st1)
                  | (Inr False, st1) \<Rightarrow> (Inr (), st1)
                  | (Inr True, st1) \<Rightarrow>
                      (case invoke (Diff p) (puller_diff env p) st1 of
                         (Inl e, st2) \<Rightarrow> (Inl e, st2)
                       | (Inr (old_commit, new_commit), st2) \<Rightarrow>
                           (case invoke (Pull p) (puller_pull env p) st2 of
                              (Inl e, st3) \<Rightarrow> (Inl e, st3)
                            | (Inr u, st3) \<Rightarrow>
                                invoke (Publish (scope_id s) old_commit new_commit)
                                  (publish_changed_directories env old_commit new_commit (scope_id s))
                                  st3)))))"

fun periodic_check_loop :: "env \<Rightarrow> element list \<Rightarrow> state \<Rightarrow> (exn + unit) \<times> state" where
  "periodic_check_loop env [] st = (Inr (), st)"
| "periodic_check_loop env (x # xs) st =
     (case periodic_check_scope env x st of
        (Inl e, st') \<Rightarrow> (Inl e, st')
      | (Inr u, st') \<Rightarrow> periodic_check_loop env xs st')"

definition periodic_check :: "env \<Rightarrow> state \<Rightarrow> (error + unit) \<times> state" where
  "periodic_check env st =
     (case periodic_check_loop env (ScopeStore_all_scopes st) st of
        (r, st') \<Rightarrow> (uncaught r, st'))"

text \<open>
  \<^verbatim>\<open>git.Commit(repository, bytes.fromhex(h))\<close>, the argument being evaluated first.
\<close>

definition commit_fromhex :: "string \<Rightarrow> exn + commit" where
  "commit_fromhex h = (case bytes_fromhex h of Inl e \<Rightarrow> Inl e | Inr binsha \<Rightarrow> git_Commit binsha)"

text \<open>The body of the loop of \<^verbatim>\<open>webhook_github\<close> for one element, and the loop.\<close>

definition webhook_github_scope :: "env \<Rightarrow> push_webhook \<Rightarrow> element \<Rightarrow> state \<Rightarrow> (exn + unit) \<times> state" where
  "webhook_github_scope env push x st =
     (case getattr_scope x ''policy'' of
        Inl e \<Rightarrow> (Inl e, st)
      | Inr s \<Rightarrow>
          if \<not> list_ex (\<lambda>u. url (policy s) = u)
                 [clone_url (repository push), git_url (repository push), ssh_url (repository push)]
          then (Inr (), st)
          else
            (case ScopeStore_pull_scope env (scope_id s) st of
               (Inl e, st1) \<Rightarrow> (Inl e, st1)
             | (Inr u, st1) \<Rightarrow>
                 (case git_Repo env
                         (os_path_join (os_path_join (BASE_DIR env) ''scopes'') (scope_id s))
                         (calls st1) of
                    Inl e \<Rightarrow> (Inl e, st1)
                  | Inr git_repository \<Rightarrow>
                      (case commit_fromhex (before push) of
                         Inl e \<Rightarrow> (Inl e, st1)
                       | Inr old_commit \<Rightarrow>
                           (case commit_fromhex (after push) of
                              Inl e \<Rightarrow> (Inl e, st1)
                            | Inr new_commit \<Rightarrow>
                                invoke (Publish (scope_id s) old_commit new_commit)
                                  (publish_changed_directories env old_commit new_commit (scope_id s))
                                  st1)))))"

fun webhook_github_loop :: "env \<Rightarrow> push_webhook \<Rightarrow> element list \<Rightarrow> state \<Rightarrow> (exn + unit) \<times> state" where
  "webhook_github_loop env push [] st = (Inr (), st)"
| "webhook_github_loop env push (x # xs) st =
     (case webhook_github_scope env push x st of
        (Inl e, st') \<Rightarrow> (Inl e, st')
      | (Inr u, st') \<Rightarrow> webhook_github_loop env push xs st')"

text \<open>What a handler returns as the body of its response.\<close>

datatype content =
    Scope_content scope
  | Bundle_content policy_bundle
  | Data_content string
  | Status_ok
  | Null

definition webhook_github ::
  "env \<Rightarrow> string option \<Rightarrow> string option \<Rightarrow> push_webhook \<Rightarrow> string \<Rightarrow> state \<Rightarrow> (error + content) \<times> state" where
  "webhook_github env x_github_event x_hub_signature_256 push raw_body st =
     (if x_github_event \<noteq> Some ''push'' then (Inr Status_ok, st)
      else
        (case validate_github_signature_or_throw env raw_body x_hub_signature_256 of
           Inl e \<Rightarrow> (Inl e, st)
         | Inr u \<Rightarrow>
             (case webhook_github_loop env push (ScopeStore_all_scopes st) st of
                (Inl e, st') \<Rightarrow> (Inl (Uncaught e), st')
              | (Inr u', st') \<Rightarrow> (Inr Null, st'))))"

subsection \<open>The router\<close>

text \<open>
  The six routes of the router with their path, query and body parameters, and a request:
  its route, the three headers the API reads and the raw body. A dependency of a route
  runs before the handler, and the handler is not entered when the dependency raises.
  A response is a status code and a body.

  A route is declared from the parameters of its handler. FastAPI takes the annotation of
  a parameter as its type and a marker such as \<^verbatim>\<open>Path(...)\<close>, \<^verbatim>\<open>Query(None)\<close>
  or \<^verbatim>\<open>Header(None)\<close> as its default value. The handler \<^verbatim>\<open>webhook_github\<close>
  writes \<^verbatim>\<open>x_github_event: Header(None)\<close> and
  \<^verbatim>\<open>x_hub_signature_256: Header(None)\<close>: the marker is the annotation and there is no
  default, where the dependency writes
  \<^verbatim>\<open>authorization: Optional[str] = Header(None)\<close>. A marker is not a type, so the
  declaration of that route raises and no request to it is served; the last case of
  \<open>serve\<close> is what the handler would be called with, had its declaration been accepted.
\<close>

datatype parameter =
    Path_default
  | Query_default
  | Body_model
  | Request_object
  | Header_annotation

datatype route =
    GET_scope string
  | POST_scopes scope
  | GET_scope_policy string "string option"
  | GET_scope_data string
  | POST_periodic_check
  | POST_webhook_github_push push_webhook

record request =
  route :: route
  authorization :: "string option"
  x_github_event :: "string option"
  x_hub_signature_256 :: "string option"
  raw_body :: string

type_synonym response = "nat \<times> content"

definition respond :: "nat \<Rightarrow> ('a \<Rightarrow> content) \<Rightarrow> error + 'a \<Rightarrow> error + response" where
  "respond code body r = (case r of Inl e \<Rightarrow> Inl e | Inr v \<Rightarrow> Inr (code, body v))"

definition depends ::
  "error + unit \<Rightarrow> (state \<Rightarrow> (error + response) \<times> state) \<Rightarrow> state \<Rightarrow> (error + response) \<times> state" where
  "depends dependency handler st =
     (case dependency of Inl e \<Rightarrow> (Inl e, st) | Inr u \<Rightarrow> handler st)"

definition handler_parameters :: "route \<Rightarrow> parameter list" where
  "handler_parameters r =
     (case r of
        GET_scope sid \<Rightarrow> [Path_default]
      | POST_scopes s \<Rightarrow> [Body_model]
      | GET_scope_policy sid base_hash \<Rightarrow> [Path_default, Query_default]
      | GET_scope_data sid \<Rightarrow> [Path_default]
      | POST_periodic_check \<Rightarrow> []
      | POST_webhook_github_push push \<Rightarrow>
          [Header_annotation, Header_annotation, Body_model, Request_object])"

definition declare_route :: "parameter list \<Rightarrow> exn + unit" where
  "declare_route ps =
     (if Header_annotation \<in> set ps then Inl (FastAPIError ''Invalid args for response field'')
      else Inr ())"

definition serve :: "env \<Rightarrow> request \<Rightarrow> state \<Rightarrow> (error + response) \<times> state" where
  "serve env req st =
     (case declare_route (handler_parameters (route req)) of
        Inl e \<Rightarrow> (Inl (Uncaught e), st)
      | Inr declared \<Rightarrow>
          (case route req of
             GET_scope sid \<Rightarrow>
               depends (check_scope_api_key env (authorization req))
                 (\<lambda>st. (respond 200 Scope_content (get_scope st sid), st)) st
           | POST_scopes s \<Rightarrow>
               depends (check_scope_api_key env (authorization req))
                 (\<lambda>st. case add_scope env s st of (r, st') \<Rightarrow> (respond 201 (\<lambda>u. Null) r, st')) st
           | GET_scope_policy sid base_hash \<Rightarrow>
               (respond 200 Bundle_content (get_scope_policy env sid base_hash st), st)
           | GET_scope_data sid \<Rightarrow>
               (respond 200 Data_content (get_scope_data_config st sid), st)
           | POST_periodic_check \<Rightarrow>
               depends (check_scope_api_key env (authorization req))
                 (\<lambda>st. case periodic_check env st of (r, st') \<Rightarrow> (respond 200 (\<lambda>u. Null) r, st')) st
           | POST_webhook_github_push push \<Rightarrow>
               (case webhook_github env (x_github_event req) (x_hub_signature_256 req) push
                       (raw_body req) st of
                  (r, st') \<Rightarrow> (respond 200 (\<lambda>c. c) r, st'))))"

text \<open>
  The sweep over the scopes that remain, from a state reached in the middle of the sweep,
  with the result as it leaves \<^verbatim>\<open>periodic_check\<close>.
\<close>

definition remaining_sweep :: "env \<Rightarrow> element list \<Rightarrow> state \<Rightarrow> (error + unit) \<times> state" where
  "remaining_sweep env xs st =
     (case periodic_check_loop env xs st of (r, st') \<Rightarrow> (uncaught r, st'))"

subsection \<open>Concrete inputs\<close>

text \<open>
  One scope named \<open>demo\<close> with polling enabled, an environment whose collaborators all
  succeed, and a push event for the repository of that scope.
\<close>

definition demo_scope :: scope where
  "demo_scope =
     \<lparr>scope_id = ''demo'',
      policy = \<lparr>source_type = ''git'', url = ''https://example.com/repo.git'', polling = True,
                directories = [''policies''], extensions = [''.rego''], manifest = ''.manifest''\<rparr>,
      data = ''{}''\<rparr>"

definition demo_repo :: repo where
  "demo_repo =
     \<lparr>objects =
        [(''c1'', \<lparr>parents = [],
                   tree = [([''policies'', ''x.rego''], ''v1''),
                           ([''policies'', ''old.rego''], ''gone''),
                           ([''README.md''], ''r1'')]\<rparr>),
         (''c2'', \<lparr>parents = [''c1''],
                   tree = [([''policies'', ''x.rego''], ''v2''),
                           ([''policies'', ''y.rego''], ''new''),
                           ([''policies'', ''notes.txt''], ''n''),
                           ([''README.md''], ''r2'')]\<rparr>)],
      head_commit = ''c2''\<rparr>"

definition demo_env :: env where
  "demo_env =
     \<lparr>SCOPE_API_KEY = ''secret'', BASE_DIR = ''/opal'', puller_types = [''git''],
      signature_valid = (\<lambda>body sig. sig = Some (''sha256='' @ body)),
      puller_check = (\<lambda>p h. Inr True),
      puller_diff = (\<lambda>p h. Inr (''c1'', ''c2'')),
      puller_pull = (\<lambda>p h. Inr ()),
      publish_changed_directories = (\<lambda>old new prefix h. Inr ()),
      git_Repo = (\<lambda>dir h. if dir = ''/opal/scopes/demo'' then Inr demo_repo
                         else Inl (NoSuchPathError dir)),
      stable_hash = (\<lambda>c dirs exts m. c)\<rparr>"

definition demo_state :: state where
  "demo_state = \<lparr>registry = [(''demo'', demo_scope)], calls = []\<rparr>"

definition demo_push :: push_webhook where
  "demo_push =
     \<lparr>repository = \<lparr>clone_url = ''https://example.com/repo.git'',
                     git_url = ''git://example.com/repo.git'',
                     ssh_url = ''git@example.com:repo.git''\<rparr>,
      before = ''1111111111111111111111111111111111111111'',
      after = ''2222222222222222222222222222222222222222''\<rparr>"

definition demo_puller :: puller where
  "demo_puller = Puller ''/opal/scopes'' demo_scope"

text \<open>
  A scope whose source type has no puller variant, a scope with polling disabled, and an
  environment in which no upstream has new commits.
\<close>

definition broken_scope :: scope where
  "broken_scope =
     \<lparr>scope_id = ''broken'',
      policy = \<lparr>source_type = ''svn'', url = ''https://example.com/other'', polling = True,
                directories = [''policies''], extensions = [''.rego''], manifest = ''.manifest''\<rparr>,
      data = ''{}''\<rparr>"

definition two_scope_state :: state where
  "two_scope_state =
     \<lparr>registry = [(''broken'', broken_scope), (''demo'', demo_scope)], calls = []\<rparr>"

definition unpolled_scope :: scope where
  "unpolled_scope =
     \<lparr>scope_id = ''manual'',
      policy = \<lparr>source_type = ''git'', url = ''https://example.com/manual.git'', polling = False,
                directories = [''policies''], extensions = [''.rego''], manifest = ''.manifest''\<rparr>,
      data = ''{}''\<rparr>"

definition unpolled_state :: state where
  "unpolled_state =
     \<lparr>registry = [(''manual'', unpolled_scope), (''demo'', demo_scope)], calls = []\<rparr>"

definition quiet_env :: env where
  "quiet_env = demo_env\<lparr>puller_check := (\<lambda>p h. Inr False)\<rparr>"

text \<open>Environments in which the fetch of the pull, or the diff, fails.\<close>

definition pull_fails_env :: env where
  "pull_fails_env = demo_env\<lparr>puller_pull := (\<lambda>p h. Inl (CollaboratorFailure ''fetch failed''))\<rparr>"

definition diff_fails_env :: env where
  "diff_fails_env = demo_env\<lparr>puller_diff := (\<lambda>p h. Inl (CollaboratorFailure ''no new commits''))\<rparr>"

definition request_of :: "route \<Rightarrow> request" where
  "request_of r =
     \<lparr>route = r, authorization = None, x_github_event = None, x_hub_signature_256 = None,
      raw_body = []\<rparr>"

section \<open>Properties\<close>

subsection \<open>The bearer-token dependency\<close>










subsection \<open>The webhook\<close>

text \<open>
  The handler itself, called with its parameters bound: an event type other than
  \<open>push\<close> is acknowledged in the same state, and a \<open>push\<close> event whose signature
  does not validate raises before the scopes are listed.
\<close>

lemma webhook_github_non_push:
  "event \<noteq> Some ''push'' \<Longrightarrow>
     webhook_github env event signature push body st = (Inr Status_ok, st)"
  by (simp add: webhook_github_def)

lemma webhook_github_invalid_signature:
  "\<not> signature_valid env body signature \<Longrightarrow>
     webhook_github env (Some ''push'') signature push body st = (Inl (HTTPException 401 None), st)"
  by (simp add: webhook_github_def validate_github_signature_or_throw_def)

lemma webhook_route_refused:
  "route req = POST_webhook_github_push push \<Longrightarrow>
     serve env req st = (Inl (Uncaught (FastAPIError ''Invalid args for response field'')), st)"
  by (simp add: serve_def declare_route_def handler_parameters_def)

text \<open>
  C9, evaluated on a webhook request with the event type \<open>ping\<close>: the declaration of
  the route raises, because both header parameters of the handler carry their marker as
  the annotation, so the request is not served and gets no acknowledgment. The handler
  called directly with the same event type returns the status body.
\<close>

theorem non_push_event_not_served:
  "declare_route (handler_parameters (POST_webhook_github_push demo_push))
     = Inl (FastAPIError ''Invalid args for response field'')
   \<and> serve demo_env
       ((request_of (POST_webhook_github_push demo_push))\<lparr>x_github_event := Some ''ping''\<rparr>)
       demo_state
     = (Inl (Uncaught (FastAPIError ''Invalid args for response field'')), demo_state)
   \<and> webhook_github demo_env (Some ''ping'') None demo_push [] demo_state
     = (Inr Status_ok, demo_state)"
  by (simp add: serve_def declare_route_def handler_parameters_def request_of_def
        webhook_github_def)

text \<open>
  C1, evaluated on a webhook request with the event type \<open>push\<close> and a signature that
  does not validate against the body: the declaration of the route raises, so the request
  never reaches the validation. The handler called directly with the same parameters is
  rejected by the validation in the same state.
\<close>

theorem invalid_signature_not_validated:
  "\<not> signature_valid demo_env ''tampered'' (Some ''sha256={}'')
   \<and> serve demo_env
       ((request_of (POST_webhook_github_push demo_push))
          \<lparr>x_github_event := Some ''push'', x_hub_signature_256 := Some ''sha256={}'',
           raw_body := ''tampered''\<rparr>)
       demo_state
     = (Inl (Uncaught (FastAPIError ''Invalid args for response field'')), demo_state)
   \<and> webhook_github demo_env (Some ''push'') (Some ''sha256={}'') demo_push ''tampered'' demo_state
     = (Inl (HTTPException 401 None), demo_state)"
  by (simp add: serve_def declare_route_def handler_parameters_def request_of_def
        webhook_github_def validate_github_signature_or_throw_def demo_env_def)

subsection \<open>Routes without the bearer-token dependency\<close>

text \<open>
  C10: the policy and data routes have no bearer-token dependency. Two requests to one of
  them that differ only in the Authorization header are served identically, the answer is
  never an exception of status 401, and the state is as it was.
\<close>

theorem policy_and_data_ignore_authorization:
  assumes "route req = GET_scope_policy sid base_hash \<or> route req = GET_scope_data sid"
  shows "serve env (req\<lparr>authorization := a\<rparr>) st = serve env req st
         \<and> (\<forall>d. fst (serve env req st) \<noteq> Inl (HTTPException 401 d))
         \<and> snd (serve env req st) = st"
  using assms
  by (auto simp: serve_def declare_route_def handler_parameters_def respond_def get_scope_policy_def get_scope_data_config_def uncaught_def
           split: sum.splits)

theorem policy_and_data_ignore_authorization_witness:
  "route (request_of (GET_scope_data ''demo'')) = GET_scope_data ''demo''
   \<and> serve demo_env ((request_of (GET_scope_data ''demo''))\<lparr>authorization := Some ''Bearer wrong''\<rparr>)
       demo_state = (Inr (200, Data_content ''{}''), demo_state)
   \<and> serve demo_env (request_of (GET_scope_data ''demo'')) demo_state
       = (Inr (200, Data_content ''{}''), demo_state)"
  using policy_and_data_ignore_authorization
    [of "request_of (GET_scope_data ''demo'')" "''demo''" None demo_env
      "Some ''Bearer wrong''" demo_state]
  by (simp add: request_of_def serve_def declare_route_def handler_parameters_def respond_def get_scope_data_config_def
        ScopeStore_get_scope_def demo_state_def demo_scope_def)

subsection \<open>The periodic sweep\<close>

lemma periodic_check_loop_append:
  "periodic_check_loop env (xs @ ys) st =
     (case periodic_check_loop env xs st of
        (Inl e, st') \<Rightarrow> (Inl e, st')
      | (Inr u, st') \<Rightarrow> periodic_check_loop env ys st')"
  by (induction xs arbitrary: st) (auto split: prod.splits sum.splits)

lemma periodic_check_scope_unpolled:
  "\<not> polling (policy s) \<Longrightarrow> periodic_check_scope env (Id_scope_pair sid s) st = (Inr (), st)"
  by (simp add: periodic_check_scope_def unpack_pair_def)

lemma periodic_check_scope_unchanged:
  assumes "polling (policy s)" and "create_puller env (get_base_dir env) s = Inr p"
    and "puller_check env p (calls st) = Inr False"
  shows "periodic_check_scope env (Id_scope_pair sid s) st
           = (Inr (), st\<lparr>calls := calls st @ [Check p]\<rparr>)"
  using assms by (simp add: periodic_check_scope_def unpack_pair_def invoke_def)

text \<open>
  C2, as the code has it: the loop of the sweep has no handler around its body. When the
  scopes before some scope are processed without a failure and processing that scope
  raises, the exception leaves \<^verbatim>\<open>periodic_check\<close> uncaught in the state reached at
  the failure, so nothing is performed for the scopes after it.
\<close>

theorem sweep_stops_at_first_failure:
  assumes "ScopeStore_all_scopes st = pre @ x # post"
    and "periodic_check_loop env pre st = (Inr (), st1)"
    and "periodic_check_scope env x st1 = (Inl e, st2)"
  shows "periodic_check env st = (Inl (Uncaught e), st2)"
  using assms by (simp add: periodic_check_def periodic_check_loop_append uncaught_def)

theorem sweep_stops_at_first_failure_witness:
  "ScopeStore_all_scopes two_scope_state
     = [] @ Id_scope_pair ''broken'' broken_scope # [Id_scope_pair ''demo'' demo_scope]
   \<and> periodic_check_scope demo_env (Id_scope_pair ''broken'' broken_scope) two_scope_state
       = (Inl (InvalidScopeSourceType ''svn''), two_scope_state)
   \<and> periodic_check demo_env two_scope_state
       = (Inl (Uncaught (InvalidScopeSourceType ''svn'')), two_scope_state)"
  using sweep_stops_at_first_failure [of two_scope_state "[]" "Id_scope_pair ''broken'' broken_scope"
     "[Id_scope_pair ''demo'' demo_scope]" demo_env two_scope_state "InvalidScopeSourceType ''svn''"
     two_scope_state]
  by (simp add: ScopeStore_all_scopes_def two_scope_state_def
        periodic_check_scope_def unpack_pair_def create_puller_def broken_scope_def
        demo_env_def)

text \<open>
  C2, as the spec states it, fails: with the scope \<open>broken\<close>, whose source type has no
  puller, registered before the scope \<open>demo\<close>, the sweep raises at \<open>broken\<close> and
  performs no operation at all, although the sweep over \<open>demo\<close> alone checks, diffs,
  pulls and publishes.
\<close>

theorem sweep_failure_counterexample:
  "periodic_check demo_env two_scope_state
     = (Inl (Uncaught (InvalidScopeSourceType ''svn'')), two_scope_state)
   \<and> calls two_scope_state = []
   \<and> periodic_check demo_env (two_scope_state\<lparr>registry := [(''demo'', demo_scope)]\<rparr>)
     = (Inr (), two_scope_state\<lparr>registry := [(''demo'', demo_scope)],
          calls := [Check demo_puller, Diff demo_puller, Pull demo_puller,
                    Publish ''demo'' ''c1'' ''c2'']\<rparr>)"
  by (simp add: periodic_check_def ScopeStore_all_scopes_def two_scope_state_def
        periodic_check_scope_def unpack_pair_def create_puller_def broken_scope_def demo_scope_def
        demo_env_def get_base_dir_def os_path_join_def uncaught_def invoke_def demo_puller_def)

lemma periodic_check_scope_polled:
  assumes "polling (policy s)" and "create_puller env (get_base_dir env) s = Inr p"
  shows "periodic_check_scope env (Id_scope_pair sid s) st =
     (case puller_check env p (calls st) of
        Inl e \<Rightarrow> (Inl e, st\<lparr>calls := calls st @ [Check p]\<rparr>)
      | Inr False \<Rightarrow> (Inr (), st\<lparr>calls := calls st @ [Check p]\<rparr>)
      | Inr True \<Rightarrow>
          (case puller_diff env p (calls st @ [Check p]) of
             Inl e \<Rightarrow> (Inl e, st\<lparr>calls := calls st @ [Check p, Diff p]\<rparr>)
           | Inr (old_commit, new_commit) \<Rightarrow>
               (case puller_pull env p (calls st @ [Check p, Diff p]) of
                  Inl e \<Rightarrow> (Inl e, st\<lparr>calls := calls st @ [Check p, Diff p, Pull p]\<rparr>)
                | Inr u \<Rightarrow>
                    (publish_changed_directories env old_commit new_commit (scope_id s)
                       (calls st @ [Check p, Diff p, Pull p]),
                     st\<lparr>calls := calls st @ [Check p, Diff p, Pull p,
                                             Publish (scope_id s) old_commit new_commit]\<rparr>))))"
  using assms
  by (simp add: periodic_check_scope_def unpack_pair_def invoke_def
        split: sum.splits bool.splits prod.splits)

lemma periodic_check_reaches:
  assumes "ScopeStore_all_scopes st = pre @ x # post"
    and "periodic_check_loop env pre st = (Inr (), st1)"
  shows "periodic_check env st =
     (case periodic_check_scope env x st1 of
        (Inl e, st2) \<Rightarrow> (Inl (Uncaught e), st2)
      | (Inr u, st2) \<Rightarrow> remaining_sweep env post st2)"
  using assms
  by (simp add: periodic_check_def remaining_sweep_def periodic_check_loop_append uncaught_def
        split: prod.splits sum.splits)

text \<open>
  C3, as the code has it: for a scope that \<^verbatim>\<open>periodic_check\<close> reaches, in the state
  \<open>st1\<close> left by the scopes before it. With polling disabled the sweep goes on in the
  same state: no puller operation and no publish. With polling enabled and
  \<^verbatim>\<open>check()\<close> false, the check is the only operation and the sweep goes on. With
  \<^verbatim>\<open>check()\<close> true, \<^verbatim>\<open>diff()\<close> is invoked next; \<^verbatim>\<open>pull()\<close> is invoked after
  it if \<^verbatim>\<open>diff()\<close> returns; the publish of the commit pair returned by
  \<^verbatim>\<open>diff()\<close>, under the scope's prefix, is invoked after it if \<^verbatim>\<open>pull()\<close>
  returns; and the operation that raises is the last one of the sweep.
\<close>

theorem sweep_scope_operations:
  assumes "ScopeStore_all_scopes st = pre @ Id_scope_pair sid s # post"
    and "periodic_check_loop env pre st = (Inr (), st1)"
  shows "(\<not> polling (policy s) \<longrightarrow> periodic_check env st = remaining_sweep env post st1)
       \<and> (\<forall>p. polling (policy s) \<and> create_puller env (get_base_dir env) s = Inr p
              \<and> puller_check env p (calls st1) = Inr False \<longrightarrow>
            periodic_check env st
              = remaining_sweep env post (st1\<lparr>calls := calls st1 @ [Check p]\<rparr>))
       \<and> (\<forall>p. polling (policy s) \<and> create_puller env (get_base_dir env) s = Inr p
              \<and> puller_check env p (calls st1) = Inr True \<longrightarrow>
            periodic_check env st =
              (case puller_diff env p (calls st1 @ [Check p]) of
                 Inl e \<Rightarrow>
                   (Inl (Uncaught e), st1\<lparr>calls := calls st1 @ [Check p, Diff p]\<rparr>)
               | Inr (old_commit, new_commit) \<Rightarrow>
                   (case puller_pull env p (calls st1 @ [Check p, Diff p]) of
                      Inl e \<Rightarrow>
                        (Inl (Uncaught e), st1\<lparr>calls := calls st1 @ [Check p, Diff p, Pull p]\<rparr>)
                    | Inr u \<Rightarrow>
                        (case publish_changed_directories env old_commit new_commit (scope_id s)
                                (calls st1 @ [Check p, Diff p, Pull p]) of
                           Inl e \<Rightarrow>
                             (Inl (Uncaught e),
                              st1\<lparr>calls := calls st1 @ [Check p, Diff p, Pull p,
                                     Publish (scope_id s) old_commit new_commit]\<rparr>)
                         | Inr u' \<Rightarrow>
                             remaining_sweep env post
                               (st1\<lparr>calls := calls st1 @ [Check p, Diff p, Pull p,
                                      Publish (scope_id s) old_commit new_commit]\<rparr>)))))"
proof (intro conjI allI impI)
  assume "\<not> polling (policy s)"
  then show "periodic_check env st = remaining_sweep env post st1"
    using periodic_check_reaches [OF assms] by (simp add: periodic_check_scope_unpolled)
next
  fix p
  assume "polling (policy s) \<and> create_puller env (get_base_dir env) s = Inr p
              \<and> puller_check env p (calls st1) = Inr False"
  then show "periodic_check env st
              = remaining_sweep env post (st1\<lparr>calls := calls st1 @ [Check p]\<rparr>)"
    using periodic_check_reaches [OF assms] by (simp add: periodic_check_scope_unchanged)
next
  fix p
  assume h: "polling (policy s) \<and> create_puller env (get_base_dir env) s = Inr p
              \<and> puller_check env p (calls st1) = Inr True"
  then have "periodic_check_scope env (Id_scope_pair sid s) st1 =
          (case puller_diff env p (calls st1 @ [Check p]) of
             Inl e \<Rightarrow> (Inl e, st1\<lparr>calls := calls st1 @ [Check p, Diff p]\<rparr>)
           | Inr (old_commit, new_commit) \<Rightarrow>
               (case puller_pull env p (calls st1 @ [Check p, Diff p]) of
                  Inl e \<Rightarrow> (Inl e, st1\<lparr>calls := calls st1 @ [Check p, Diff p, Pull p]\<rparr>)
                | Inr u \<Rightarrow>
                    (publish_changed_directories env old_commit new_commit (scope_id s)
                       (calls st1 @ [Check p, Diff p, Pull p]),
                     st1\<lparr>calls := calls st1 @ [Check p, Diff p, Pull p,
                                              Publish (scope_id s) old_commit new_commit]\<rparr>)))"
    using periodic_check_scope_polled [of s env p sid st1] by simp
  then show "periodic_check env st =
              (case puller_diff env p (calls st1 @ [Check p]) of
                 Inl e \<Rightarrow>
                   (Inl (Uncaught e), st1\<lparr>calls := calls st1 @ [Check p, Diff p]\<rparr>)
               | Inr (old_commit, new_commit) \<Rightarrow>
                   (case puller_pull env p (calls st1 @ [Check p, Diff p]) of
                      Inl e \<Rightarrow>
                        (Inl (Uncaught e), st1\<lparr>calls := calls st1 @ [Check p, Diff p, Pull p]\<rparr>)
                    | Inr u \<Rightarrow>
                        (case publish_changed_directories env old_commit new_commit (scope_id s)
                                (calls st1 @ [Check p, Diff p, Pull p]) of
                           Inl e \<Rightarrow>
                             (Inl (Uncaught e),
                              st1\<lparr>calls := calls st1 @ [Check p, Diff p, Pull p,
                                     Publish (scope_id s) old_commit new_commit]\<rparr>)
                         | Inr u' \<Rightarrow>
                             remaining_sweep env post
                               (st1\<lparr>calls := calls st1 @ [Check p, Diff p, Pull p,
                                      Publish (scope_id s) old_commit new_commit]\<rparr>))))"
    using periodic_check_reaches [OF assms] by (simp split: sum.splits prod.splits)
qed

theorem sweep_scope_operations_witness:
  "periodic_check demo_env unpolled_state
     = (Inr (), unpolled_state\<lparr>calls := [Check demo_puller, Diff demo_puller, Pull demo_puller,
                                          Publish ''demo'' ''c1'' ''c2'']\<rparr>)
   \<and> periodic_check quiet_env unpolled_state
     = (Inr (), unpolled_state\<lparr>calls := [Check demo_puller]\<rparr>)
   \<and> periodic_check pull_fails_env unpolled_state
     = (Inl (Uncaught (CollaboratorFailure ''fetch failed'')),
        unpolled_state\<lparr>calls := [Check demo_puller, Diff demo_puller, Pull demo_puller]\<rparr>)
   \<and> periodic_check demo_env unpolled_state
     = remaining_sweep demo_env [Id_scope_pair ''demo'' demo_scope] unpolled_state"
  using
    sweep_scope_operations [of unpolled_state "[Id_scope_pair ''manual'' unpolled_scope]" "''demo''"
      demo_scope "[]" demo_env unpolled_state]
    sweep_scope_operations [of unpolled_state "[Id_scope_pair ''manual'' unpolled_scope]" "''demo''"
      demo_scope "[]" quiet_env unpolled_state]
    sweep_scope_operations [of unpolled_state "[Id_scope_pair ''manual'' unpolled_scope]" "''demo''"
      demo_scope "[]" pull_fails_env unpolled_state]
    sweep_scope_operations [of unpolled_state "[]" "''manual''" unpolled_scope
      "[Id_scope_pair ''demo'' demo_scope]" demo_env unpolled_state]
  by (simp add: ScopeStore_all_scopes_def unpolled_state_def periodic_check_scope_def
        unpack_pair_def unpolled_scope_def demo_scope_def create_puller_def demo_env_def
        quiet_env_def pull_fails_env_def get_base_dir_def os_path_join_def demo_puller_def
        remaining_sweep_def uncaught_def)

text \<open>
  C3, as the spec states it, fails: for the registered scope \<open>demo\<close>, polling is
  enabled and \<^verbatim>\<open>check()\<close> returns true, but when \<^verbatim>\<open>pull()\<close> raises nothing is
  published, and when \<^verbatim>\<open>diff()\<close> raises nothing is pulled or published.
\<close>

theorem sweep_operations_counterexample:
  "polling (policy demo_scope)
   \<and> puller_check pull_fails_env demo_puller [] = Inr True
   \<and> periodic_check pull_fails_env demo_state
     = (Inl (Uncaught (CollaboratorFailure ''fetch failed'')),
        demo_state\<lparr>calls := [Check demo_puller, Diff demo_puller, Pull demo_puller]\<rparr>)
   \<and> puller_check diff_fails_env demo_puller [] = Inr True
   \<and> periodic_check diff_fails_env demo_state
     = (Inl (Uncaught (CollaboratorFailure ''no new commits'')),
        demo_state\<lparr>calls := [Check demo_puller, Diff demo_puller]\<rparr>)"
  by (simp add: periodic_check_def ScopeStore_all_scopes_def demo_state_def
        periodic_check_scope_def unpack_pair_def create_puller_def demo_scope_def
        demo_env_def pull_fails_env_def diff_fails_env_def get_base_dir_def os_path_join_def
        uncaught_def invoke_def demo_puller_def)

subsection \<open>Unknown scopes\<close>

text \<open>
  C5, evaluated on a registry without the scope \<open>missing\<close>: the policy route and the
  data route let \<^verbatim>\<open>ScopeNotFound\<close> leave the handler uncaught, where the route of the
  scope itself, for an authorized request, turns it into the exception of status 404.
\<close>

theorem scope_not_found_uncaught:
  "serve demo_env (request_of (GET_scope_policy ''missing'' None)) demo_state
     = (Inl (Uncaught (ScopeNotFound ''missing'')), demo_state)
   \<and> serve demo_env (request_of (GET_scope_data ''missing'')) demo_state
     = (Inl (Uncaught (ScopeNotFound ''missing'')), demo_state)
   \<and> serve demo_env ((request_of (GET_scope ''missing''))\<lparr>authorization := Some ''Bearer secret''\<rparr>)
       demo_state
     = (Inl (HTTPException 404 None), demo_state)"
  by (simp add: serve_def declare_route_def handler_parameters_def request_of_def respond_def get_scope_policy_def
        get_scope_data_config_def get_scope_def ScopeStore_get_scope_def demo_state_def
        depends_def check_scope_api_key_def get_authorization_scheme_param_def lower_def
        lower_char_def demo_env_def)

subsection \<open>Adding a scope\<close>




subsection \<open>Push events\<close>

text \<open>
  C8, evaluated on a push event with a valid signature for the repository of the
  registered scope \<open>demo\<close>. In the handler, the loop binds its variable to the whole
  (scope_id, scope) pair that \<^verbatim>\<open>all_scopes\<close> yields, reading \<^verbatim>\<open>policy\<close> on the
  pair raises, and the state is as it was, so the matching scope is neither pulled nor
  published. On a scope object the same loop pulls the scope and publishes the commits of
  the event. The request itself is not served, as the declaration of the route raises.
\<close>

theorem push_event_raises_on_pair:
  "webhook_github demo_env (Some ''push'') (Some ''sha256={}'') demo_push ''{}'' demo_state
     = (Inl (Uncaught (AttributeError ''policy'')), demo_state)
   \<and> webhook_github_loop demo_env demo_push [Scope_object demo_scope] demo_state
     = (Inr (), demo_state\<lparr>calls := [Pull demo_puller,
          Publish ''demo'' ''1111111111111111111111111111111111111111''
            ''2222222222222222222222222222222222222222'']\<rparr>)
   \<and> serve demo_env
       ((request_of (POST_webhook_github_push demo_push))
          \<lparr>x_github_event := Some ''push'', x_hub_signature_256 := Some ''sha256={}'',
           raw_body := ''{}''\<rparr>)
       demo_state
     = (Inl (Uncaught (FastAPIError ''Invalid args for response field'')), demo_state)"
  by (simp add: serve_def declare_route_def handler_parameters_def request_of_def
        webhook_github_def
        validate_github_signature_or_throw_def ScopeStore_all_scopes_def demo_state_def
        webhook_github_scope_def getattr_scope_def demo_env_def demo_scope_def demo_push_def
        ScopeStore_pull_scope_def ScopeStore_get_scope_def create_puller_def get_base_dir_def
        os_path_join_def invoke_def demo_puller_def commit_fromhex_def git_Commit_def
        is_space_def is_hex_digit_def lower_char_def)

subsection \<open>Policy bundles\<close>





end
